theory Spec2Isabelle
  imports Main "HOL-Library.Sublist" "HOL-Library.AList"
begin

section \<open>Python values and exceptions\<close>

text \<open>
  The values that flow through the worker: what \<^verbatim>\<open>json.loads\<close> returns, strings and
  byte strings read from files, \<^verbatim>\<open>None\<close>, and opaque objects (an AMQP channel, a vault
  target).  A \<^verbatim>\<open>dict\<close> is an association list in insertion order, as Python keeps it.
\<close>

datatype pyval =
    PNone
  | PBool bool
  | PInt int
  | PStr string
  | PBytes string
  | PList "pyval list"
  | PDict "(string \<times> pyval) list"
  | PObj nat

text \<open>Python truthiness (\<^verbatim>\<open>not x\<close>, \<^verbatim>\<open>x or y\<close>, \<^verbatim>\<open>if x:\<close>, \<^verbatim>\<open>assert x\<close>).\<close>

fun truthy :: "pyval \<Rightarrow> bool" where
  "truthy PNone = False"
| "truthy (PBool b) = b"
| "truthy (PInt i) = (i \<noteq> 0)"
| "truthy (PStr s) = (s \<noteq> [])"
| "truthy (PBytes s) = (s \<noteq> [])"
| "truthy (PList xs) = (xs \<noteq> [])"
| "truthy (PDict d) = (d \<noteq> [])"
| "truthy (PObj n) = True"

text \<open>\<^verbatim>\<open>a or b\<close>\<close>

definition py_or :: "pyval \<Rightarrow> pyval \<Rightarrow> pyval" where
  "py_or a b = (if truthy a then a else b)"

text \<open>
  Exception classes.  All of them derive from \<^verbatim>\<open>Exception\<close>.  \<open>RejectMessage\<close>,
  \<open>FromUser\<close> and its subclass \<open>NotFoundInInbox\<close> come from \<^verbatim>\<open>lega/utils/exceptions.py\<close>,
  which is not among the sources; the comments of \<^verbatim>\<open>_handle_request\<close> and the
  specification's glossary say what they stand for.  An exception value carries what
  \<^verbatim>\<open>str()\<close> and \<^verbatim>\<open>repr()\<close> give for it, and its \<^verbatim>\<open>__cause__\<close> (set by
  \<^verbatim>\<open>raise ... from e\<close>).
\<close>

datatype exn_class =
    RejectMessage
  | FromUser
  | NotFoundInInbox
  | JSONDecodeError
  | AssertionError
  | KeyError
  | TypeError
  | ValueError
  | FileNotFoundError
  | PermissionError
  | NoSectionError
  | NoOptionError
  | OtherError string

datatype exn = Exn (exn_class: exn_class) (exn_str: string) (exn_repr: string) (exn_cause: "exn option")

fun class_name :: "exn_class \<Rightarrow> string" where
  "class_name RejectMessage = ''RejectMessage''"
| "class_name FromUser = ''FromUser''"
| "class_name NotFoundInInbox = ''NotFoundInInbox''"
| "class_name JSONDecodeError = ''JSONDecodeError''"
| "class_name AssertionError = ''AssertionError''"
| "class_name KeyError = ''KeyError''"
| "class_name TypeError = ''TypeError''"
| "class_name ValueError = ''ValueError''"
| "class_name FileNotFoundError = ''FileNotFoundError''"
| "class_name PermissionError = ''PermissionError''"
| "class_name NoSectionError = ''NoSectionError''"
| "class_name NoOptionError = ''NoOptionError''"
| "class_name (OtherError n) = n"

text \<open>
  An exception built from one message string, \<^verbatim>\<open>Cls(msg)\<close>: its \<^verbatim>\<open>str()\<close> is the
  message, its \<^verbatim>\<open>repr()\<close> is written here without the quotes around the message.
\<close>

definition new_exn :: "exn_class \<Rightarrow> string \<Rightarrow> exn option \<Rightarrow> exn" where
  "new_exn c msg cause = Exn c msg (class_name c @ ''('' @ msg @ '')'') cause"

definition is_FromUser :: "exn \<Rightarrow> bool" where
  "is_FromUser e = (exn_class e = FromUser \<or> exn_class e = NotFoundInInbox)"

definition is_RejectMessage :: "exn \<Rightarrow> bool" where
  "is_RejectMessage e = (exn_class e = RejectMessage)"

definition is_JSONDecodeError :: "exn \<Rightarrow> bool" where
  "is_JSONDecodeError e = (exn_class e = JSONDecodeError)"

section \<open>The sensitive-value resolver (\<^verbatim>\<open>ingestion/lega/conf/__init__.py\<close>)\<close>

text \<open>
  The operating system as the resolver sees it: the files (with the mode bits \<^verbatim>\<open>os.stat\<close>
  reports, whether opening and reading succeeds, the contents, and whether \<^verbatim>\<open>os.remove\<close>
  succeeds), and the trail of calls and log records the resolver leaves.
\<close>

datatype fnode = File (st_mode: int) (readable: bool) (contents: string) (removable: bool)

datatype os_event =
    Opened string string
  | OsRemove string
  | OsStat string
  | DeprecationWarning string
  | LogWarning string

record os_state =
  files :: "string \<Rightarrow> fnode option"
  trail :: "os_event list"

definition emit :: "os_event \<Rightarrow> os_state \<Rightarrow> os_state" where
  "emit ev st = st\<lparr>trail := trail st @ [ev]\<rparr>"

text \<open>\<^verbatim>\<open>with open(filepath, mode) as s: return s.read()\<close>\<close>

definition open_read :: "string \<Rightarrow> string \<Rightarrow> os_state \<Rightarrow> (exn + pyval) \<times> os_state" where
  "open_read filepath mode st =
     (let st' = emit (Opened filepath mode) st in
      case files st filepath of
        None \<Rightarrow> (Inl (new_exn FileNotFoundError filepath None), st')
      | Some f \<Rightarrow>
          if readable f
          then (Inr (if CHR ''b'' \<in> set mode then PBytes (contents f) else PStr (contents f)), st')
          else (Inl (new_exn PermissionError filepath None), st'))"

text \<open>\<^verbatim>\<open>os.remove(filepath)\<close>\<close>

definition os_remove :: "string \<Rightarrow> os_state \<Rightarrow> (exn + unit) \<times> os_state" where
  "os_remove filepath st =
     (let st' = emit (OsRemove filepath) st in
      case files st filepath of
        None \<Rightarrow> (Inl (new_exn FileNotFoundError filepath None), st')
      | Some f \<Rightarrow>
          if removable f
          then (Inr (), st'\<lparr>files := (files st')(filepath := None)\<rparr>)
          else (Inl (new_exn PermissionError filepath None), st'))"

text \<open>\<^verbatim>\<open>os.stat(path)\<close>, of which only \<^verbatim>\<open>st_mode\<close> is used.\<close>

definition os_stat :: "string \<Rightarrow> os_state \<Rightarrow> (exn + int) \<times> os_state" where
  "os_stat path st =
     (let st' = emit (OsStat path) st in
      case files st path of
        None \<Rightarrow> (Inl (new_exn FileNotFoundError path None), st')
      | Some f \<Rightarrow> (Inr (st_mode f), st'))"

text \<open>
  \<^verbatim>\<open>get_from_file(filepath, mode='rb', remove_after=False)\<close>: the \<^verbatim>\<open>try\<close> reads, the
  \<^verbatim>\<open>except Exception\<close> turns any failure into a \<open>ValueError\<close> with the failure as its
  cause, and the \<^verbatim>\<open>finally\<close> removes the file when asked, logging a failed removal.
\<close>

definition get_from_file :: "string \<Rightarrow> string \<Rightarrow> bool \<Rightarrow> os_state \<Rightarrow> (exn + pyval) \<times> os_state" where
  "get_from_file filepath mode remove_after st =
     (let (r, st1) = open_read filepath mode st;
          res = (case r of
                   Inr c \<Rightarrow> Inr c
                 | Inl e \<Rightarrow> Inl (new_exn ValueError (''Error loading '' @ filepath) (Some e)));
          st2 = (if remove_after
                 then (case os_remove filepath st1 of
                         (Inr u, st') \<Rightarrow> st'
                       | (Inl e, st') \<Rightarrow> emit (LogWarning (''Could not remove '' @ filepath)) st')
                 else st1)
      in (res, st2))"

text \<open>Whether opening and reading the file at a path succeeds, and whether removing it does.\<close>

definition can_read :: "os_state \<Rightarrow> string \<Rightarrow> bool" where
  "can_read st p = (case files st p of Some f \<Rightarrow> readable f | None \<Rightarrow> False)"

definition can_remove :: "os_state \<Rightarrow> string \<Rightarrow> bool" where
  "can_remove st p = (case files st p of Some f \<Rightarrow> removable f | None \<Rightarrow> False)"

definition S_IRGRP :: int where "S_IRGRP = 32"
definition S_IROTH :: int where "S_IROTH = 4"

text \<open>
  \<^verbatim>\<open>convert_sensitive(value)\<close>; \<open>env\<close> is the process environment read by
  \<^verbatim>\<open>os.getenv\<close>.  \<^verbatim>\<open>value[8:]\<close> is \<open>drop 8 value\<close>.
\<close>

definition convert_sensitive ::
  "(string \<Rightarrow> string option) \<Rightarrow> string option \<Rightarrow> os_state \<Rightarrow> (exn + pyval) \<times> os_state" where
  "convert_sensitive env v st =
     (case v of
        None \<Rightarrow> (Inr PNone, st)
      | Some value \<Rightarrow>
          if prefix ''value://'' value then (Inr (PStr (drop 8 value)), st)
          else if prefix ''env://'' value then
            (let envvar = drop 6 value;
                 st1 = emit (DeprecationWarning ''env'') st
             in case env envvar of
                  None \<Rightarrow> (Inl (new_exn ValueError (''Environment variable '' @ envvar @ '' not found'') None), st1)
                | Some envvalue \<Rightarrow> (Inr (PStr envvalue), st1))
          else if prefix ''file://'' value then
            (let path = drop 7 value in
             case os_stat path st of
               (Inl e, st1) \<Rightarrow> (Inl e, st1)
             | (Inr m, st1) \<Rightarrow>
                 (let st2 = (if truthy (py_or (PInt (and m S_IRGRP)) (PInt (and m S_IROTH)))
                             then emit (DeprecationWarning ''file'') st1 else st1)
                  in get_from_file path ''rt'' False st2))
          else if prefix ''secret://'' value then
            (let path = drop 9 value in get_from_file path ''rb'' True st)
          else (Inr (PStr value), st))"

section \<open>The configuration store\<close>

text \<open>
  \<^verbatim>\<open>Configuration\<close> is a \<^verbatim>\<open>configparser.RawConfigParser\<close> without interpolation: the
  options of the \<^verbatim>\<open>DEFAULT\<close> section and those of every other section.  A lookup in a
  section sees the section's options first and the defaults behind them; \<^verbatim>\<open>DEFAULT\<close>
  itself always exists.  The option names the worker asks for are lower case already, so
  \<^verbatim>\<open>optionxform\<close> leaves them as they are.
\<close>

record config =
  defaults :: "(string \<times> string) list"
  sections :: "(string \<times> (string \<times> string) list) list"

text \<open>The \<^verbatim>\<open>fallback=\<close> keyword: not given, or given with a value.\<close>

datatype 'a fallback = Unset | Fallback 'a

definition unify_values :: "config \<Rightarrow> string \<Rightarrow> exn + (string \<Rightarrow> string option)" where
  "unify_values cfg section =
     (case map_of (sections cfg) section of
        Some d \<Rightarrow> Inr (map_of (defaults cfg) ++ map_of d)
      | None \<Rightarrow>
          if section = ''DEFAULT'' then Inr (map_of (defaults cfg))
          else Inl (new_exn NoSectionError section None))"

text \<open>\<^verbatim>\<open>CONF.get(section, option, fallback=...)\<close>\<close>

definition conf_get :: "config \<Rightarrow> string \<Rightarrow> string \<Rightarrow> pyval fallback \<Rightarrow> exn + pyval" where
  "conf_get cfg section option fb =
     (case unify_values cfg section of
        Inl e \<Rightarrow> (case fb of Unset \<Rightarrow> Inl e | Fallback v \<Rightarrow> Inr v)
      | Inr d \<Rightarrow>
          (case d option of
             Some v \<Rightarrow> Inr (PStr v)
           | None \<Rightarrow> (case fb of Unset \<Rightarrow> Inl (new_exn NoOptionError option None) | Fallback v \<Rightarrow> Inr v)))"







section \<open>The AMQP connection parameters (\<^verbatim>\<open>AMQPConnection.fetch_args\<close>)\<close>













section \<open>The message dispatcher (\<^verbatim>\<open>lega/utils/amqp.py\<close>)\<close>

text \<open>
  A delivery as the consume callback receives it.  \<^verbatim>\<open>correlation_id\<close> and
  \<^verbatim>\<open>content_type\<close> are message properties: a string, or \<^verbatim>\<open>None\<close> when the producer set
  none.
\<close>

record delivery =
  correlation_id :: pyval
  delivery_tag :: nat
  content_type :: pyval
  body :: string

text \<open>
  What the worker does to the outside, in the order it does it: a message handed to
  \<^verbatim>\<open>connection.publish(content, exchange, routing_key, correlation_id)\<close>, an ack or a
  reject of the delivery, and the calls to the database and the vault.  The broker is
  taken to be reachable: handing it a message, an ack or a reject does not fail.
\<close>

datatype event =
    Published (pub_content: pyval) (pub_exchange: pyval) (pub_routing_key: pyval) (pub_correlation_id: pyval)
  | Ack
  | Reject bool
  | InsertFile pyval pyval
  | MarkInProgress pyval
  | VaultCopy pyval pyval
  | SetInfo pyval pyval pyval pyval

text \<open>The events so far and the ambient correlation id \<^verbatim>\<open>_cid\<close>.\<close>

record mq_state =
  trace :: "event list"
  cid :: pyval

definition connection_publish :: "pyval \<Rightarrow> pyval \<Rightarrow> pyval \<Rightarrow> pyval \<Rightarrow> mq_state \<Rightarrow> mq_state" where
  "connection_publish content exch routing_key corr st =
     st\<lparr>trace := trace st @ [Published content exch routing_key corr]\<rparr>"

text \<open>\<^verbatim>\<open>message.ack()\<close> and \<^verbatim>\<open>message.reject(requeue=True)\<close>\<close>

definition ack :: "mq_state \<Rightarrow> mq_state" where
  "ack st = st\<lparr>trace := trace st @ [Ack]\<rparr>"

definition reject :: "bool \<Rightarrow> mq_state \<Rightarrow> mq_state" where
  "reject requeue st = st\<lparr>trace := trace st @ [Reject requeue]\<rparr>"

text \<open>
  \<^verbatim>\<open>publish(content, exchange=None, routing_key=None, correlation_id=None)\<close>, the
  module-level function: the result is the exception raised, if any.
\<close>

definition publish ::
  "config \<Rightarrow> pyval \<Rightarrow> pyval \<Rightarrow> pyval \<Rightarrow> pyval \<Rightarrow> mq_state \<Rightarrow> exn option \<times> mq_state" where
  "publish cfg content exch routing_key corr st =
     (let corr1 = py_or corr (cid st) in
      if \<not> truthy corr1
      then (Some (new_exn AssertionError ''You should not publish without a correlation id'' None), st)
      else
        (case (if truthy exch then Inr exch
               else conf_get cfg ''DEFAULT'' ''exchange'' (Fallback (PStr ''ingestion.v1''))) of
           Inl e \<Rightarrow> (Some e, st)
         | Inr exch1 \<Rightarrow>
             (case (if truthy routing_key then Inr routing_key
                    else conf_get cfg ''DEFAULT'' ''routing_key'' Unset) of
                Inl e \<Rightarrow> (Some e, st)
              | Inr routing_key1 \<Rightarrow>
                  (None, connection_publish content exch1 routing_key1 corr1 st))))"

text \<open>
  \<^verbatim>\<open>clean_message(content)\<close> is imported from \<^verbatim>\<open>lega/utils/__init__.py\<close>, which is not
  among the sources: the dispatcher takes it as it comes, a function that changes a dict
  in place.
\<close>

type_synonym scrubber = "(string \<times> pyval) list \<Rightarrow> (string \<times> pyval) list"

text \<open>
  Modelled from the spec: \<^verbatim>\<open>clean_message\<close> of \<^verbatim>\<open>lega/utils/__init__.py\<close>, as the glossary
  has it: ``a scrubbing routine that removes internal-only fields (\<^verbatim>\<open>file_id\<close>,
  \<^verbatim>\<open>org_msg\<close>, \<^verbatim>\<open>header\<close>, \<^verbatim>\<open>vault_path\<close>) from a message before it is published to an
  external exchange''.
\<close>

definition clean_message :: scrubber where
  "clean_message d =
     AList.delete ''vault_path'' (AList.delete ''header'' (AList.delete ''org_msg''
       (AList.delete ''file_id'' d)))"

text \<open>
  The job run on a delivery's content.  It gives back its outcome (the exception it
  raised, or its return value), the content as it has left it (the dict is changed in
  place), and what it did meanwhile.
\<close>

type_synonym job = "pyval \<Rightarrow> (exn + pyval) \<times> pyval \<times> event list"

text \<open>\<^verbatim>\<open>cause = e.__cause__ or e\<close>\<close>

definition cause_of :: "exn \<Rightarrow> exn" where
  "cause_of e = (case exn_cause e of Some c \<Rightarrow> c | None \<Rightarrow> e)"

text \<open>
  \<^verbatim>\<open>_handle_request(work, message, content, exchange, error_key, user_error_key)\<close>: the
  exception that leaves the function, if any, with the content and the state.
\<close>

definition handle_request ::
  "config \<Rightarrow> scrubber \<Rightarrow> job \<Rightarrow> pyval \<Rightarrow> pyval \<Rightarrow> pyval \<Rightarrow> pyval \<Rightarrow> mq_state
     \<Rightarrow> exn option \<times> pyval \<times> mq_state" where
  "handle_request cfg clean work content exch error_key user_error_key st =
     (case work content of
        (outcome, content1, done) \<Rightarrow>
          (let st1 = st\<lparr>trace := trace st @ done\<rparr> in
           case outcome of
             Inr res \<Rightarrow> (None, content1, ack st1)
           | Inl e \<Rightarrow>
               if is_RejectMessage e then (None, content1, reject True st1)
               else if is_FromUser e then
                 (let cause = cause_of e in
                  case content1 of
                    PDict d \<Rightarrow>
                      (let content2 = PDict (clean (AList.update ''reason'' (PStr (exn_str cause)) d)) in
                       case publish cfg content2 PNone user_error_key PNone st1 of
                         (Some e', st2) \<Rightarrow> (Some e', content2, st2)
                       | (None, st2) \<Rightarrow> (Some e, content2, ack st2))
                  | other \<Rightarrow>
                      (Some (new_exn AssertionError ''We should have a dict here'' None), content1, st1))
               else (Some e, content1, st1)))"

text \<open>The routing read once by \<^verbatim>\<open>consume\<close> from the \<^verbatim>\<open>DEFAULT\<close> section.\<close>

record routing =
  exchange :: pyval
  from_queue :: pyval
  error_key :: pyval
  user_error_key :: pyval

definition consume_routing :: "config \<Rightarrow> exn + routing" where
  "consume_routing cfg =
     (case conf_get cfg ''DEFAULT'' ''exchange'' (Fallback (PStr ''ingestion.v1'')) of
        Inl e \<Rightarrow> Inl e
      | Inr x \<Rightarrow>
          (case conf_get cfg ''DEFAULT'' ''queue'' Unset of
             Inl e \<Rightarrow> Inl e
           | Inr q \<Rightarrow>
               (case conf_get cfg ''DEFAULT'' ''error'' (Fallback (PStr ''error.system'')) of
                  Inl e \<Rightarrow> Inl e
                | Inr ek \<Rightarrow>
                    (case conf_get cfg ''DEFAULT'' ''user_error'' (Fallback (PStr ''error'')) of
                       Inl e \<Rightarrow> Inl e
                     | Inr uk \<Rightarrow>
                         Inr \<lparr>exchange = x, from_queue = q, error_key = ek, user_error_key = uk\<rparr>))))"

text \<open>
  \<^verbatim>\<open>content = message.body\<close>, replaced by \<^verbatim>\<open>json.loads(content)\<close> when the content type
  is \<^verbatim>\<open>application/json\<close>; \<open>json_loads\<close> is \<^verbatim>\<open>json.loads\<close>, which raises on a body
  that is no JSON.
\<close>

definition message_content :: "(string \<Rightarrow> exn + pyval) \<Rightarrow> delivery \<Rightarrow> exn + pyval" where
  "message_content json_loads message =
     (if content_type message = PStr ''application/json''
      then json_loads (body message) else Inr (PStr (body message)))"

text \<open>
  The \<^verbatim>\<open>try\<close> block of \<^verbatim>\<open>process_request\<close>: the exception that leaves it, if any, the
  value of \<^verbatim>\<open>content\<close> at that moment, and the state.
\<close>

definition process_request_try ::
  "config \<Rightarrow> (string \<Rightarrow> exn + pyval) \<Rightarrow> scrubber \<Rightarrow> job \<Rightarrow> routing \<Rightarrow> delivery \<Rightarrow> mq_state
     \<Rightarrow> exn option \<times> pyval \<times> mq_state" where
  "process_request_try cfg json_loads clean work r message st =
     (case message_content json_loads message of
        Inl e \<Rightarrow> (Some e, PStr (body message), st)
      | Inr content \<Rightarrow>
          if \<not> truthy content then (None, content, ack st)
          else handle_request cfg clean work content (exchange r) (error_key r) (user_error_key r) st)"

text \<open>
  \<^verbatim>\<open>process_request(message)\<close>, the callback: the \<^verbatim>\<open>try\<close> block, the two \<^verbatim>\<open>except\<close>
  clauses in their order, and the \<^verbatim>\<open>finally\<close>.  In the second clause
  \<^verbatim>\<open>content['error'] = ...\<close> needs a dict; on anything else the assignment itself raises
  \<open>TypeError\<close>, which leaves the callback.
\<close>

definition process_request ::
  "config \<Rightarrow> (string \<Rightarrow> exn + pyval) \<Rightarrow> scrubber \<Rightarrow> job \<Rightarrow> routing \<Rightarrow> delivery \<Rightarrow> mq_state
     \<Rightarrow> exn option \<times> mq_state" where
  "process_request cfg json_loads clean work r message st =
     (let corr = correlation_id message;
          st0 = st\<lparr>cid := corr\<rparr>
      in case process_request_try cfg json_loads clean work r message st0 of
           (None, content, st1) \<Rightarrow> (None, st1\<lparr>cid := PNone\<rparr>)
         | (Some e, content, st1) \<Rightarrow>
             if is_JSONDecodeError e then
               (let error = PDict [(''informal'', PStr ''Malformed JSON-message''),
                                   (''formal'', PStr (exn_repr e)),
                                   (''message'', content)]
                in (None, (reject False (connection_publish error (exchange r) (error_key r) corr st1))
                            \<lparr>cid := PNone\<rparr>))
             else
               (let cause = cause_of e in
                case content of
                  PDict d \<Rightarrow>
                    (let content1 = PDict (AList.update ''error''
                                             (PDict [(''informal'', PStr (exn_str cause)),
                                                     (''formal'', PStr (exn_repr cause))]) d)
                     in (None, (reject False (connection_publish content1 (exchange r) (error_key r) corr st1))
                                 \<lparr>cid := PNone\<rparr>))
                | other \<Rightarrow>
                    (Some (new_exn TypeError ''object does not support item assignment'' None),
                     st1\<lparr>cid := PNone\<rparr>)))"

section \<open>The ingestion worker (\<^verbatim>\<open>lega/ingest.py\<close>)\<close>

text \<open>
  What \<^verbatim>\<open>work\<close> calls outside the sources at hand, each with the outcome it has in the
  run under study: \<^verbatim>\<open>sanitize_user_id(user)\<close>; \<^verbatim>\<open>db.insert_file(filepath, user_id)\<close>;
  the inbox of a user (\<^verbatim>\<open>Path(CONF.get_value('inbox', 'location', raw=True) % user_id)\<close>);
  \<^verbatim>\<open>inbox / name\<close> and \<^verbatim>\<open>.exists()\<close> on paths; \<^verbatim>\<open>db.mark_in_progress(file_id)\<close>;
  \<^verbatim>\<open>open(inbox_filepath, 'rb')\<close>; \<^verbatim>\<open>get_header(infile)\<close>, giving the bytes before the
  header and the header; \<^verbatim>\<open>fs.location(file_id)\<close> and \<^verbatim>\<open>fs.copy(infile, target)\<close> of the
  storage \<open>fs\<close>; \<^verbatim>\<open>db.set_info(file_id, target, target_size, header_hex)\<close>.
\<close>

record world =
  sanitize_user_id :: "pyval \<Rightarrow> exn + pyval"
  db_insert_file :: "pyval \<Rightarrow> pyval \<Rightarrow> exn + pyval"
  inbox_of :: "pyval \<Rightarrow> exn + pyval"
  path_join :: "pyval \<Rightarrow> string \<Rightarrow> pyval"
  path_exists :: "pyval \<Rightarrow> bool"
  db_mark_in_progress :: "pyval \<Rightarrow> exn option"
  open_rb :: "pyval \<Rightarrow> exn + pyval"
  get_header :: "pyval \<Rightarrow> exn + (string \<times> string)"
  fs_location :: "pyval \<Rightarrow> pyval \<Rightarrow> exn + pyval"
  fs_copy :: "pyval \<Rightarrow> pyval \<Rightarrow> pyval \<Rightarrow> exn + pyval"
  db_set_info :: "pyval \<Rightarrow> pyval \<Rightarrow> pyval \<Rightarrow> pyval \<Rightarrow> exn option"

text \<open>\<^verbatim>\<open>bytes.hex()\<close>: two lower-case hexadecimal digits for each byte.\<close>

definition hex_digit :: "nat \<Rightarrow> char" where
  "hex_digit n = (if n < 10 then char_of (48 + n) else char_of (87 + n))"

definition bytes_hex :: "string \<Rightarrow> string" where
  "bytes_hex bs =
     concat (map (\<lambda>c. [hex_digit ((of_char c :: nat) div 16), hex_digit ((of_char c :: nat) mod 16)]) bs)"

text \<open>
  After \<^verbatim>\<open>data['org_msg'] = org_msg\<close> the entry of \<open>data\<close> and the local \<open>org_msg\<close> are one
  object: whoever looks at \<open>data\<close> finds under \<^verbatim>\<open>org_msg\<close> that dict as it is at that
  moment.  The model keeps the two dicts apart and \<open>shared_view\<close> is what an observer of
  \<open>data\<close> sees.
\<close>

definition shared_view :: "(string \<times> pyval) list \<Rightarrow> (string \<times> pyval) list \<Rightarrow> pyval" where
  "shared_view data org_msg = PDict (AList.update ''org_msg'' (PDict org_msg) data)"

text \<open>
  The first part of \<^verbatim>\<open>work(fs, channel, data)\<close>, up to the path looked for in the inbox:
  on success the file path, the file id, the inbox path, \<open>data\<close> and \<open>org_msg\<close>.
  Subscripting anything but a dict with a string raises \<open>TypeError\<close>, a missing key
  \<open>KeyError\<close>, and \<^verbatim>\<open>filepath.lstrip\<close> needs a string.
\<close>

type_synonym looked_up = "string \<times> pyval \<times> pyval \<times> (string \<times> pyval) list \<times> (string \<times> pyval) list"

definition work_lookup :: "world \<Rightarrow> pyval \<Rightarrow> (exn + looked_up) \<times> pyval \<times> event list" where
  "work_lookup w content =
     (case content of
        PDict data \<Rightarrow>
          (case map_of data ''filepath'' of
             None \<Rightarrow> (Inl (new_exn KeyError ''filepath'' None), content, [])
           | Some filepath \<Rightarrow>
               (case map_of data ''user'' of
                  None \<Rightarrow> (Inl (new_exn KeyError ''user'' None), content, [])
                | Some user \<Rightarrow>
                    (case sanitize_user_id w user of
                       Inl e \<Rightarrow> (Inl e, content, [])
                     | Inr user_id \<Rightarrow>
                         (let done = [InsertFile filepath user_id] in
                          case db_insert_file w filepath user_id of
                            Inl e \<Rightarrow> (Inl e, content, done)
                          | Inr file_id \<Rightarrow>
                              (let data1 = AList.update ''file_id'' file_id data;
                                   org_msg = data1;
                                   data2 = AList.update ''org_msg'' (PDict org_msg) data1
                               in case inbox_of w user_id of
                                    Inl e \<Rightarrow> (Inl e, shared_view data2 org_msg, done)
                                  | Inr inbox \<Rightarrow>
                                      (case filepath of
                                         PStr fp \<Rightarrow>
                                           (Inr (fp, file_id,
                                                 path_join w inbox (dropWhile (\<lambda>c. c = CHR ''/'') fp),
                                                 data2, org_msg),
                                            shared_view data2 org_msg, done)
                                       | other \<Rightarrow>
                                           (Inl (new_exn (OtherError ''AttributeError'') ''lstrip'' None),
                                            shared_view data2 org_msg, done)))))))
      | other \<Rightarrow> (Inl (new_exn TypeError ''indices must be integers'' None), content, []))"

text \<open>
  The last part of \<^verbatim>\<open>work\<close>, from ``Ok, we have the file in the inbox'' to the
  \<^verbatim>\<open>return\<close>.  \<open>ambient\<close> is the correlation id in \<^verbatim>\<open>_cid\<close> while the job runs, \<open>done\<close>
  the events up to there.  The call
  \<^verbatim>\<open>publish(org_msg, channel, 'cega', 'files.processing')\<close> passes its arguments by
  position to \<^verbatim>\<open>publish(content, exchange, routing_key, correlation_id)\<close>.
\<close>

definition work_in_inbox ::
  "world \<Rightarrow> config \<Rightarrow> pyval \<Rightarrow> pyval \<Rightarrow> pyval \<Rightarrow> pyval \<Rightarrow> pyval
     \<Rightarrow> (string \<times> pyval) list \<Rightarrow> (string \<times> pyval) list \<Rightarrow> event list
     \<Rightarrow> (exn + pyval) \<times> pyval \<times> event list" where
  "work_in_inbox w cfg ambient fs channel file_id inbox_filepath data org_msg done =
     (let done1 = done @ [MarkInProgress file_id] in
      case db_mark_in_progress w file_id of
        Some e \<Rightarrow> (Inl e, shared_view data org_msg, done1)
      | None \<Rightarrow>
          (let org_msg1 = AList.update ''status'' (PStr ''PROCESSING'') org_msg in
           case publish cfg (PDict org_msg1) channel (PStr ''cega'') (PStr ''files.processing'')
                  \<lparr>trace = done1, cid = ambient\<rparr> of
             (Some e, st) \<Rightarrow> (Inl e, shared_view data org_msg1, trace st)
           | (None, st) \<Rightarrow>
               (let org_msg2 = AList.delete ''status'' org_msg1;
                    done2 = trace st
                in case open_rb w inbox_filepath of
                     Inl e \<Rightarrow> (Inl e, shared_view data org_msg2, done2)
                   | Inr infile \<Rightarrow>
                       (case get_header w infile of
                          Inl e \<Rightarrow> (Inl e, shared_view data org_msg2, done2)
                        | Inr (beginning, header) \<Rightarrow>
                            (case fs_location w fs file_id of
                               Inl e \<Rightarrow> (Inl e, shared_view data org_msg2, done2)
                             | Inr target \<Rightarrow>
                                 (let done3 = done2 @ [VaultCopy infile target] in
                                  case fs_copy w fs infile target of
                                    Inl e \<Rightarrow> (Inl e, shared_view data org_msg2, done3)
                                  | Inr target_size \<Rightarrow>
                                      (let header_hex = PStr (bytes_hex (beginning @ header));
                                           done4 = done3 @ [SetInfo file_id target target_size header_hex]
                                       in case db_set_info w file_id target target_size header_hex of
                                            Some e \<Rightarrow> (Inl e, shared_view data org_msg2, done4)
                                          | None \<Rightarrow>
                                              (let data1 = AList.update ''header'' header_hex data;
                                                   data2 = AList.update ''vault_path'' target data1;
                                                   reply = shared_view data2 org_msg2
                                               in (Inr reply, reply, done4)))))))))"

text \<open>
  \<^verbatim>\<open>work(fs, channel, data)\<close>, the body under the two decorators: its outcome (the
  exception raised, or the reply returned), the content as it leaves it, and the events
  in their order.
\<close>

definition work ::
  "world \<Rightarrow> config \<Rightarrow> pyval \<Rightarrow> pyval \<Rightarrow> pyval \<Rightarrow> pyval \<Rightarrow> (exn + pyval) \<times> pyval \<times> event list" where
  "work w cfg ambient fs channel content =
     (case work_lookup w content of
        (Inl e, content1, done) \<Rightarrow> (Inl e, content1, done)
      | (Inr (fp, file_id, inbox_filepath, data, org_msg), content1, done) \<Rightarrow>
          if \<not> path_exists w inbox_filepath
          then (Inl (new_exn NotFoundInInbox fp None), content1, done)
          else work_in_inbox w cfg ambient fs channel file_id inbox_filepath data org_msg done)"

section \<open>A concrete delivery\<close>

text \<open>
  The happy path and the missing file of the specification's scenarios: the request
  \<^verbatim>\<open>{"filepath": "/a/b.c4gh", "user": "elixir:alice"}\<close>, the inbox \<^verbatim>\<open>/inbox/alice\<close>, file
  id 42, a ten-byte header prefix and a payload of 876 bytes.
\<close>

definition scenario_request :: "(string \<times> pyval) list" where
  "scenario_request = [(''filepath'', PStr ''/a/b.c4gh''), (''user'', PStr ''elixir:alice'')]"

definition scenario_config :: config where
  "scenario_config = \<lparr>defaults = [(''queue'', ''files''), (''routing_key'', ''archived'')], sections = []\<rparr>"

definition scenario_routing :: routing where
  "scenario_routing = \<lparr>exchange = PStr ''ingestion.v1'', from_queue = PStr ''files'',
                         error_key = PStr ''error.system'', user_error_key = PStr ''error''\<rparr>"

definition quoted :: "string \<Rightarrow> string" where
  "quoted s = [CHR 0x22] @ s @ [CHR 0x22]"

definition scenario_body :: string where
  "scenario_body = ''{'' @ quoted ''filepath'' @ '': '' @ quoted ''/a/b.c4gh'' @ '', ''
                      @ quoted ''user'' @ '': '' @ quoted ''elixir:alice'' @ ''}''"

definition scenario_loads :: "string \<Rightarrow> exn + pyval" where
  "scenario_loads s =
     (if s = scenario_body then Inr (PDict scenario_request)
      else if s = ''[1]'' then Inr (PList [PInt 1])
      else Inl (new_exn JSONDecodeError ''Expecting value'' None))"

definition scenario_delivery :: delivery where
  "scenario_delivery = \<lparr>correlation_id = PStr ''c-1'', delivery_tag = 1,
                          content_type = PStr ''application/json'', body = scenario_body\<rparr>"

definition scenario_world :: world where
  "scenario_world =
     \<lparr>sanitize_user_id = (\<lambda>user. Inr (PStr ''alice'')),
      db_insert_file = (\<lambda>filepath user_id. Inr (PInt 42)),
      inbox_of = (\<lambda>user_id. Inr (PStr ''/inbox/alice'')),
      path_join = (\<lambda>inbox name. case inbox of PStr d \<Rightarrow> PStr (d @ ''/'' @ name) | other \<Rightarrow> other),
      path_exists = (\<lambda>p. p = PStr ''/inbox/alice/a/b.c4gh''),
      db_mark_in_progress = (\<lambda>file_id. None),
      open_rb = (\<lambda>p. Inr (PObj 3)),
      get_header = (\<lambda>infile. Inr (''crypt4gh'', [CHR 0x01, CHR 0x00])),
      fs_location = (\<lambda>fs file_id. Inr (PStr ''/vault/42'')),
      fs_copy = (\<lambda>fs infile target. Inr (PInt 876)),
      db_set_info = (\<lambda>file_id target target_size header_hex. None)\<rparr>"

definition empty_inbox_world :: world where
  "empty_inbox_world = scenario_world\<lparr>path_exists := (\<lambda>p. False)\<rparr>"

text \<open>A job that only raises: \<^verbatim>\<open>def work(content): raise e\<close>.\<close>

definition raising :: "exn \<Rightarrow> job" where
  "raising e = (\<lambda>content. (Inl e, content, []))"




definition no_files :: os_state where
  "no_files = \<lparr>files = (\<lambda>p. None), trail = []\<rparr>"

text \<open>
  A process environment with nothing set, and one with \<^verbatim>\<open>HOME\<close> set; a machine whose only
  file is a secret that can be neither read nor removed.
\<close>

definition empty_env :: "string \<Rightarrow> string option" where
  "empty_env v = None"

definition home_env :: "string \<Rightarrow> string option" where
  "home_env v = (if v = ''HOME'' then Some ''/root'' else None)"


definition locked_secret :: os_state where
  "locked_secret =
     \<lparr>files = (\<lambda>p. if p = ''/run/secrets/mq'' then Some (File 0 False ''amqps://u:p@h/v'' False) else None),
      trail = []\<rparr>"


definition array_delivery :: delivery where
  "array_delivery = scenario_delivery\<lparr>body := ''[1]''\<rparr>"



definition idle :: mq_state where
  "idle = \<lparr>trace = [], cid = PNone\<rparr>"

text \<open>
  The job of scenario 1 and of scenario 2: \<^verbatim>\<open>partial(work, fs(), broker.channel())\<close> run on
  the request, the storage and the channel being two objects, under the correlation id
  of the delivery.
\<close>

definition scenario_storage :: pyval where
  "scenario_storage = PObj 1"

definition scenario_channel :: pyval where
  "scenario_channel = PObj 2"

definition scenario_job :: "pyval \<Rightarrow> job" where
  "scenario_job ambient =
     work scenario_world scenario_config ambient scenario_storage scenario_channel"

definition missing_file_job :: "pyval \<Rightarrow> job" where
  "missing_file_job ambient =
     work empty_inbox_world scenario_config ambient scenario_storage scenario_channel"

definition scenario_run :: "(exn + pyval) \<times> pyval \<times> event list" where
  "scenario_run = scenario_job (PStr ''c-1'') (PDict scenario_request)"

definition missing_file_run :: "(exn + pyval) \<times> pyval \<times> event list" where
  "missing_file_run = missing_file_job (PStr ''c-1'') (PDict scenario_request)"

section \<open>The resolver: properties\<close>

text \<open>
  C5. For every string \<open>X\<close>, whatever it starts with, resolving \<^verbatim>\<open>value://X\<close> gives exactly
  \<open>X\<close>: the \<^verbatim>\<open>value://\<close> test comes first, so no other scheme is looked at, the
  environment and the file system are not consulted and nothing is logged or removed.
\<close>

theorem convert_sensitive_value_literal:
  "convert_sensitive env (Some (''value://'' @ X)) st = (Inr (PStr X), st)"
  by (simp add: convert_sensitive_def)

text \<open>The literal \<^verbatim>\<open>env://HOME\<close>, written \<^verbatim>\<open>value://env://HOME\<close>, with \<^verbatim>\<open>HOME\<close> set.\<close>

theorem convert_sensitive_value_literal_witness:
  "convert_sensitive home_env (Some ''value://env://HOME'') no_files
     = (Inr (PStr ''env://HOME''), no_files)"
  using convert_sensitive_value_literal [of home_env "''env://HOME''" no_files]
  by simp

text \<open>
  C6. Resolving \<^verbatim>\<open>file://PATH\<close> when there is no file at \<open>PATH\<close>: \<^verbatim>\<open>os.stat(path)\<close> runs
  before \<^verbatim>\<open>get_from_file\<close> and its \<open>FileNotFoundError\<close> leaves \<^verbatim>\<open>convert_sensitive\<close> as
  it is, not wrapped in the \<open>ValueError\<close> that \<^verbatim>\<open>get_from_file\<close> raises ``if it
  errors''.  The same missing file under \<^verbatim>\<open>secret://\<close> does give the \<open>ValueError\<close>.
\<close>

theorem file_scheme_missing_file_not_wrapped:
  "fst (convert_sensitive empty_env (Some ''file:///run/secrets/absent'') no_files)
     = Inl (new_exn FileNotFoundError ''/run/secrets/absent'' None)
   \<and> fst (convert_sensitive empty_env (Some ''secret:///run/secrets/absent'') no_files)
     = Inl (new_exn ValueError ''Error loading /run/secrets/absent''
              (Some (new_exn FileNotFoundError ''/run/secrets/absent'' None)))"
  by (simp add: convert_sensitive_def os_stat_def get_from_file_def open_read_def os_remove_def
        emit_def no_files_def Let_def)

text \<open>
  Where the file is there, \<^verbatim>\<open>file://\<close> behaves as documented: its text when it can be read,
  the \<open>ValueError\<close> when it cannot; and whenever no file is there, the error is the
  \<open>FileNotFoundError\<close> of \<^verbatim>\<open>os.stat\<close>.
\<close>

lemma file_scheme_present:
  assumes "files st path = Some f"
  shows "fst (convert_sensitive env (Some (''file://'' @ path)) st) =
           (if readable f then Inr (PStr (contents f))
            else Inl (new_exn ValueError (''Error loading '' @ path)
                        (Some (new_exn PermissionError path None))))"
  using assms
  by (simp add: convert_sensitive_def os_stat_def get_from_file_def open_read_def emit_def Let_def)

lemma file_scheme_absent:
  assumes "files st path = None"
  shows "fst (convert_sensitive env (Some (''file://'' @ path)) st) =
           Inl (new_exn FileNotFoundError path None)"
  using assms
  by (simp add: convert_sensitive_def os_stat_def emit_def Let_def)

text \<open>
  C10. Resolving \<^verbatim>\<open>secret://PATH\<close> opens the file and then calls \<^verbatim>\<open>os.remove\<close> on it
  whether or not the read succeeded; a removal that fails leaves one log record and
  nothing else.  The outcome is decided by the read alone: the bytes of the file, or
  the \<open>ValueError\<close> (with the read's error as cause) when it could not be read.  The
  file is gone afterwards exactly when the removal succeeded.
\<close>

theorem secret_removed_whatever_the_read:
  assumes "convert_sensitive env (Some (''secret://'' @ path)) st = (r, st')"
  shows "trail st' = trail st @ [Opened path ''rb'', OsRemove path]
                       @ (if can_remove st path then [] else [LogWarning (''Could not remove '' @ path)])
       \<and> (if can_read st path
          then (\<exists>f. files st path = Some f \<and> r = Inr (PBytes (contents f)))
          else (\<exists>e. r = Inl (new_exn ValueError (''Error loading '' @ path) (Some e))))
       \<and> files st' = (if can_remove st path then (files st)(path := None) else files st)"
  using assms
  by (auto simp: convert_sensitive_def get_from_file_def open_read_def os_remove_def emit_def
        can_read_def can_remove_def Let_def split: option.splits if_splits)

text \<open>
  A secret that cannot be read (nor removed): the removal is attempted all the same, its
  failure is logged, and the error raised is the one of the read.
\<close>

theorem secret_removed_whatever_the_read_witness:
  "snd (convert_sensitive empty_env (Some ''secret:///run/secrets/mq'') locked_secret)
     = locked_secret\<lparr>trail := [Opened ''/run/secrets/mq'' ''rb'', OsRemove ''/run/secrets/mq'',
                                 LogWarning ''Could not remove /run/secrets/mq'']\<rparr>
   \<and> fst (convert_sensitive empty_env (Some ''secret:///run/secrets/mq'') locked_secret)
     = Inl (new_exn ValueError ''Error loading /run/secrets/mq''
              (Some (new_exn PermissionError ''/run/secrets/mq'' None)))"
proof -
  obtain r st' where
    run: "convert_sensitive empty_env (Some (''secret://'' @ ''/run/secrets/mq'')) locked_secret = (r, st')"
    by (cases "convert_sensitive empty_env (Some (''secret://'' @ ''/run/secrets/mq'')) locked_secret")
  from secret_removed_whatever_the_read [OF run]
  have "trail st' = [Opened ''/run/secrets/mq'' ''rb'', OsRemove ''/run/secrets/mq'',
                     LogWarning ''Could not remove /run/secrets/mq'']"
    and "files st' = files locked_secret"
    by (simp_all add: locked_secret_def can_remove_def)
  moreover have "r = Inl (new_exn ValueError ''Error loading /run/secrets/mq''
              (Some (new_exn PermissionError ''/run/secrets/mq'' None)))"
    using run
    by (simp add: convert_sensitive_def get_from_file_def open_read_def os_remove_def emit_def
          locked_secret_def Let_def split: if_splits)
  ultimately show ?thesis using run by simp
qed

section \<open>The connection parameters: properties\<close>









section \<open>The dispatcher: properties\<close>

text \<open>
  C3. The routing keys the dispatcher reads from the \<^verbatim>\<open>DEFAULT\<close> section: the option
  \<^verbatim>\<open>user_error\<close> holds the user-error routing key and defaults to \<^verbatim>\<open>error\<close>; the option
  \<^verbatim>\<open>error\<close> holds the system-error routing key and defaults to \<^verbatim>\<open>error.system\<close>.  The two
  options are read independently of each other.  (\<^verbatim>\<open>DEFAULT\<close> is not one of the named
  sections: the parser keeps its options apart.)
\<close>

theorem consume_routing_keys:
  assumes "map_of (sections cfg) ''DEFAULT'' = None"
      and "consume_routing cfg = Inr r"
  shows "user_error_key r = (case map_of (defaults cfg) ''user_error'' of
                               Some v \<Rightarrow> PStr v | None \<Rightarrow> PStr ''error'')
       \<and> error_key r = (case map_of (defaults cfg) ''error'' of
                          Some v \<Rightarrow> PStr v | None \<Rightarrow> PStr ''error.system'')"
  using assms
  by (auto simp: consume_routing_def conf_get_def unify_values_def split: option.splits sum.splits)

text \<open>With neither option set, the two defaults.\<close>

theorem consume_routing_keys_witness:
  "consume_routing scenario_config = Inr scenario_routing
   \<and> user_error_key scenario_routing = PStr ''error''
   \<and> error_key scenario_routing = PStr ''error.system''"
proof -
  have r: "consume_routing scenario_config = Inr scenario_routing"
    by (simp add: consume_routing_def conf_get_def unify_values_def scenario_config_def
          scenario_routing_def)
  have s: "map_of (sections scenario_config) ''DEFAULT'' = None"
    by (simp add: scenario_config_def)
  from consume_routing_keys [OF s r] r show ?thesis
    by (simp add: scenario_config_def)
qed

text \<open>
  Setting \<^verbatim>\<open>error\<close> alone moves the system-error key and leaves the user-error key at
  its default; setting both gives each key its own option.
\<close>

theorem error_option_is_system_key_counterexample:
  "consume_routing \<lparr>defaults = [(''queue'', ''files''), (''error'', ''lega.error'')], sections = []\<rparr>
     = Inr \<lparr>exchange = PStr ''ingestion.v1'', from_queue = PStr ''files'',
            error_key = PStr ''lega.error'', user_error_key = PStr ''error''\<rparr>
   \<and> consume_routing \<lparr>defaults = [(''queue'', ''files''), (''error'', ''lega.error''),
                                   (''user_error'', ''lega.user'')], sections = []\<rparr>
     = Inr \<lparr>exchange = PStr ''ingestion.v1'', from_queue = PStr ''files'',
            error_key = PStr ''lega.error'', user_error_key = PStr ''lega.user''\<rparr>"
  by (simp add: consume_routing_def conf_get_def unify_values_def)






lemma scenario_facts:
  "consume_routing scenario_config = Inr scenario_routing"
  "message_content scenario_loads scenario_delivery = Inr (PDict scenario_request)"
  "truthy (PDict scenario_request)"
  "truthy (correlation_id scenario_delivery)"
  "truthy (user_error_key scenario_routing)"
  by (simp_all add: consume_routing_def conf_get_def unify_values_def scenario_config_def
        scenario_routing_def message_content_def scenario_loads_def scenario_delivery_def
        scenario_request_def)




text \<open>
  C4. Take a delivery whose content is a JSON object.  If the job raises an exception
  that is neither \<open>RejectMessage\<close>, nor \<open>FromUser\<close>, nor \<open>JSONDecodeError\<close>, the
  dispatcher does, after whatever the job did: publish the content with an \<^verbatim>\<open>error\<close>
  object (the string and the representation of the cause) on the system-error key, then
  reject the delivery without requeue.  Nothing else is published.
\<close>

theorem system_error_routing:
  assumes content: "message_content json_loads message = Inr content" "truthy content"
      and raised: "job content = (Inl e, PDict d, did)"
         "\<not> is_RejectMessage e" "\<not> is_FromUser e" "\<not> is_JSONDecodeError e"
  shows "process_request cfg json_loads clean job r message st =
           (None, st\<lparr>trace := trace st @ did @
                      [Published (PDict (AList.update ''error''
                                    (PDict [(''informal'', PStr (exn_str (cause_of e))),
                                            (''formal'', PStr (exn_repr (cause_of e)))]) d))
                                 (exchange r) (error_key r) (correlation_id message),
                       Reject False],
                    cid := PNone\<rparr>)"
  using assms
  by (simp add: process_request_def process_request_try_def handle_request_def
        connection_publish_def reject_def Let_def)

text \<open>A job that fails on a database error.\<close>

theorem system_error_routing_witness:
  "process_request scenario_config scenario_loads clean_message
     (raising (new_exn (OtherError ''OperationalError'') ''connection lost'' None))
     scenario_routing scenario_delivery idle
   = (None,
      \<lparr>trace =
         [Published (PDict [(''filepath'', PStr ''/a/b.c4gh''), (''user'', PStr ''elixir:alice''),
                            (''error'', PDict [(''informal'', PStr ''connection lost''),
                                               (''formal'', PStr ''OperationalError(connection lost)'')])])
            (PStr ''ingestion.v1'') (PStr ''error.system'') (PStr ''c-1''),
          Reject False],
       cid = PNone\<rparr>)"
proof -
  let ?e = "new_exn (OtherError ''OperationalError'') ''connection lost'' None"
  have j: "raising ?e (PDict scenario_request) = (Inl ?e, PDict scenario_request, [])"
    by (simp add: raising_def)
  have n: "\<not> is_RejectMessage ?e" "\<not> is_FromUser ?e" "\<not> is_JSONDecodeError ?e"
    by (simp_all add: is_RejectMessage_def is_FromUser_def is_JSONDecodeError_def new_exn_def)
  from system_error_routing [where job = "raising ?e" and cfg = scenario_config
         and r = scenario_routing and st = idle and clean = clean_message,
         OF scenario_facts(2,3) j n]
  show ?thesis
    by (simp add: idle_def scenario_routing_def scenario_delivery_def scenario_request_def
          cause_of_def new_exn_def)
qed

text \<open>
  Two deliveries on which another exception is not routed that way.  A
  \<open>JSONDecodeError\<close> raised by the job is caught by the first \<^verbatim>\<open>except\<close> clause: what is
  published is the ``Malformed JSON-message'' envelope around the content, not the
  content with an \<^verbatim>\<open>error\<close> object.  On the array \<^verbatim>\<open>[1]\<close>, with a job that raises
  \<open>TypeError\<close> (as \<^verbatim>\<open>data['filepath']\<close> does on a list), the handler's
  \<^verbatim>\<open>content['error'] = ...\<close> raises in turn: nothing is published and the delivery is not
  rejected.
\<close>

theorem system_error_routing_counterexample:
  "process_request scenario_config scenario_loads clean_message
     (raising (new_exn JSONDecodeError ''Expecting value'' None)) scenario_routing scenario_delivery idle
   = (None,
      \<lparr>trace =
         [Published (PDict [(''informal'', PStr ''Malformed JSON-message''),
                            (''formal'', PStr ''JSONDecodeError(Expecting value)''),
                            (''message'', PDict [(''filepath'', PStr ''/a/b.c4gh''),
                                                 (''user'', PStr ''elixir:alice'')])])
            (PStr ''ingestion.v1'') (PStr ''error.system'') (PStr ''c-1''),
          Reject False],
       cid = PNone\<rparr>)
   \<and> process_request scenario_config scenario_loads clean_message
       (raising (new_exn TypeError ''list indices must be integers'' None))
       scenario_routing array_delivery idle
   = (Some (new_exn TypeError ''object does not support item assignment'' None), idle)"
  by code_simp

section \<open>The ingestion worker: properties\<close>

lemma work_lookup_events:
  assumes "work_lookup w content = (r, c, did)"
  shows "did = [] \<or> (\<exists>f u. did = [InsertFile f u])"
  using assms unfolding work_lookup_def Let_def
  by (auto split: pyval.splits option.splits sum.splits)


lemma work_in_inbox_events:
  assumes "work_in_inbox w cfg ambient fs channel file_id p data org_msg did = (outcome, content', evs)"
  shows "(\<exists>rest. evs = did @ MarkInProgress file_id # rest \<and> (\<forall>f t s h. SetInfo f t s h \<notin> set rest))
       \<or> (\<exists>x y z k l m t s h. evs = did @ [MarkInProgress file_id, Published x y z k, VaultCopy l m,
                                             SetInfo file_id t s h])"
  using assms
  unfolding work_in_inbox_def publish_def connection_publish_def Let_def
  by (auto split: option.splits sum.splits prod.splits if_splits)


text \<open>
  What \<^verbatim>\<open>work\<close> does for the progress message, for every request whose file is in the
  inbox, once \<^verbatim>\<open>mark_in_progress\<close> has returned: one \<^verbatim>\<open>publish\<close>, right after it, of
  \<open>org_msg\<close> with \<^verbatim>\<open>status\<close> set, the channel in the place of the exchange, \<^verbatim>\<open>cega\<close> in
  the place of the routing key and \<^verbatim>\<open>files.processing\<close> in the place of the correlation
  id; whatever follows publishes nothing.
\<close>

lemma work_publishes_progress_once:
  assumes "work_lookup w content = (Inr (fp, file_id, p, data, org_msg), c, did)"
      and "path_exists w p" and "db_mark_in_progress w file_id = None" and "truthy channel"
      and "work w cfg ambient fs channel content = (outcome, content', evs)"
  shows "\<exists>rest. evs = did @ [MarkInProgress file_id,
                             Published (PDict (AList.update ''status'' (PStr ''PROCESSING'') org_msg))
                               channel (PStr ''cega'') (PStr ''files.processing'')] @ rest
               \<and> (\<forall>a b c d. Published a b c d \<notin> set rest)"
  using assms
  unfolding work_def work_in_inbox_def publish_def connection_publish_def py_or_def Let_def
  by (auto split: option.splits sum.splits prod.splits if_splits)

lemma work_events:
  assumes "work w cfg ambient fs channel content = (outcome, content', evs)"
  shows "(\<forall>f t s h. SetInfo f t s h \<notin> set evs)
       \<or> (\<exists>pre f t s h. evs = pre @ [SetInfo f t s h] \<and> MarkInProgress f \<in> set pre
             \<and> (\<forall>f t s h. SetInfo f t s h \<notin> set pre))"
proof (cases "work_lookup w content")
  case (fields r c evs0)
  note lk = this
  from work_lookup_events[OF lk] have dn: "\<forall>f t s h. SetInfo f t s h \<notin> set evs0" by auto
  show ?thesis
  proof (cases r)
    case (Inl e)
    with lk assms dn show ?thesis by (auto simp: work_def)
  next
    case (Inr q)
    obtain fp file_id p data org_msg where q: "q = (fp, file_id, p, data, org_msg)"
      by (cases q) auto
    show ?thesis
    proof (cases "path_exists w p")
      case False
      with lk Inr q assms dn show ?thesis by (auto simp: work_def)
    next
      case True
      with lk Inr q assms
      have run: "work_in_inbox w cfg ambient fs channel file_id p data org_msg evs0 = (outcome, content', evs)"
        by (simp add: work_def)
      from work_in_inbox_events[OF run] show ?thesis
      proof
        assume "\<exists>rest. evs = evs0 @ MarkInProgress file_id # rest \<and> (\<forall>f t s h. SetInfo f t s h \<notin> set rest)"
        with dn show ?thesis by auto
      next
        assume "\<exists>x y z k l m t s h. evs = evs0 @ [MarkInProgress file_id, Published x y z k, VaultCopy l m,
                                             SetInfo file_id t s h]"
        then obtain x y z k l m t s h where
          e: "evs = evs0 @ [MarkInProgress file_id, Published x y z k, VaultCopy l m, SetInfo file_id t s h]"
          by blast
        have "evs = (evs0 @ [MarkInProgress file_id, Published x y z k, VaultCopy l m]) @ [SetInfo file_id t s h]"
          using e by simp
        moreover have "MarkInProgress file_id \<in> set (evs0 @ [MarkInProgress file_id, Published x y z k, VaultCopy l m])"
          by simp
        moreover have "\<forall>f t s h. SetInfo f t s h \<notin> set (evs0 @ [MarkInProgress file_id, Published x y z k, VaultCopy l m])"
          using dn by auto
        ultimately show ?thesis by blast
      qed
    qed
  qed
qed

lemma last_split:
  "xs @ [a] = ys @ b # zs \<Longrightarrow> b \<notin> set xs \<Longrightarrow> ys = xs \<and> a = b \<and> zs = []"
  by (cases zs rule: rev_cases) auto


lemma scenario_run_value:
  "scenario_run =
     (Inr (PDict [(''filepath'', PStr ''/a/b.c4gh''), (''user'', PStr ''elixir:alice''),
                  (''file_id'', PInt 42),
                  (''org_msg'', PDict [(''filepath'', PStr ''/a/b.c4gh''),
                                       (''user'', PStr ''elixir:alice''), (''file_id'', PInt 42)]),
                  (''header'', PStr ''63727970743467680100''),
                  (''vault_path'', PStr ''/vault/42'')]),
      PDict [(''filepath'', PStr ''/a/b.c4gh''), (''user'', PStr ''elixir:alice''),
             (''file_id'', PInt 42),
             (''org_msg'', PDict [(''filepath'', PStr ''/a/b.c4gh''),
                                  (''user'', PStr ''elixir:alice''), (''file_id'', PInt 42)]),
             (''header'', PStr ''63727970743467680100''),
             (''vault_path'', PStr ''/vault/42'')],
      [InsertFile (PStr ''/a/b.c4gh'') (PStr ''alice''),
       MarkInProgress (PInt 42),
       Published (PDict [(''filepath'', PStr ''/a/b.c4gh''), (''user'', PStr ''elixir:alice''),
                         (''file_id'', PInt 42), (''status'', PStr ''PROCESSING'')])
         (PObj 2) (PStr ''cega'') (PStr ''files.processing''),
       VaultCopy (PObj 3) (PStr ''/vault/42''),
       SetInfo (PInt 42) (PStr ''/vault/42'') (PInt 876) (PStr ''63727970743467680100'')])"
  by code_simp

lemma missing_file_run_value:
  "missing_file_run =
     (Inl (new_exn NotFoundInInbox ''/a/b.c4gh'' None),
      PDict [(''filepath'', PStr ''/a/b.c4gh''), (''user'', PStr ''elixir:alice''),
             (''file_id'', PInt 42),
             (''org_msg'', PDict [(''filepath'', PStr ''/a/b.c4gh''),
                                  (''user'', PStr ''elixir:alice''), (''file_id'', PInt 42)])],
      [InsertFile (PStr ''/a/b.c4gh'') (PStr ''alice'')])"
  by code_simp

text \<open>
  C1. The progress message on the happy path of scenario 1.  After
  \<^verbatim>\<open>mark_in_progress(42)\<close> the worker hands one message to the broker, \<open>org_msg\<close> with
  \<^verbatim>\<open>status = PROCESSING\<close>.  The call \<^verbatim>\<open>publish(org_msg, channel, 'cega', 'files.processing')\<close>
  meets \<^verbatim>\<open>publish(content, exchange, routing_key, correlation_id)\<close>: the exchange the
  message is sent to is the channel object, its routing key is \<^verbatim>\<open>cega\<close> and its
  correlation id is \<^verbatim>\<open>files.processing\<close>; it is not sent to the exchange \<^verbatim>\<open>cega\<close> with
  the routing key \<^verbatim>\<open>files.processing\<close>.
\<close>

theorem progress_message_publish_arguments:
  "snd (snd scenario_run) ! 1 = MarkInProgress (PInt 42)
   \<and> snd (snd scenario_run) ! 2 =
       Published (PDict [(''filepath'', PStr ''/a/b.c4gh''), (''user'', PStr ''elixir:alice''),
                         (''file_id'', PInt 42), (''status'', PStr ''PROCESSING'')])
         scenario_channel (PStr ''cega'') (PStr ''files.processing'')
   \<and> pub_exchange (snd (snd scenario_run) ! 2) = scenario_channel
   \<and> pub_routing_key (snd (snd scenario_run) ! 2) = PStr ''cega''
   \<and> pub_correlation_id (snd (snd scenario_run) ! 2) = PStr ''files.processing''
   \<and> pub_exchange (snd (snd scenario_run) ! 2) \<noteq> PStr ''cega''
   \<and> pub_routing_key (snd (snd scenario_run) ! 2) \<noteq> PStr ''files.processing''"
  by (simp add: scenario_run_value scenario_channel_def)

text \<open>
  C8. In every run of \<^verbatim>\<open>work\<close>, whatever the request and whatever the database, the
  inbox and the vault do, a call of \<^verbatim>\<open>set_info\<close> for a file id comes after a call of
  \<^verbatim>\<open>mark_in_progress\<close> for that file id.  And when the file looked for is not in the
  inbox, \<^verbatim>\<open>work\<close> raises \<open>NotFoundInInbox\<close> and has called neither of the two.
\<close>

theorem set_info_after_mark_in_progress:
  assumes run: "work w cfg ambient fs channel content = (outcome, content', evs)"
  shows "(\<forall>pre f t s h post. evs = pre @ SetInfo f t s h # post \<longrightarrow> MarkInProgress f \<in> set pre)
       \<and> (\<forall>fp file_id p data org_msg c did.
             work_lookup w content = (Inr (fp, file_id, p, data, org_msg), c, did) \<and> \<not> path_exists w p
             \<longrightarrow> outcome = Inl (new_exn NotFoundInInbox fp None)
                 \<and> (\<forall>f. MarkInProgress f \<notin> set evs) \<and> (\<forall>f t s h. SetInfo f t s h \<notin> set evs))"
proof (intro conjI allI impI)
  fix pre f t s h post
  assume e: "evs = pre @ SetInfo f t s h # post"
  then have "SetInfo f t s h \<in> set evs" by simp
  with work_events[OF run] obtain pre0 f0 t0 s0 h0 where
    s: "evs = pre0 @ [SetInfo f0 t0 s0 h0]" "MarkInProgress f0 \<in> set pre0"
       "\<forall>f t s h. SetInfo f t s h \<notin> set pre0"
    by blast
  from s(3) have "SetInfo f t s h \<notin> set pre0" by blast
  with last_split[of pre0 "SetInfo f0 t0 s0 h0" pre "SetInfo f t s h" post] s e
  show "MarkInProgress f \<in> set pre" by simp
next
  fix fp file_id p data org_msg c did
  assume a: "work_lookup w content = (Inr (fp, file_id, p, data, org_msg), c, did) \<and> \<not> path_exists w p"
  then have lk: "work_lookup w content = (Inr (fp, file_id, p, data, org_msg), c, did)"
    and ne: "\<not> path_exists w p" by simp_all
  from run lk ne work_lookup_events[OF lk]
  have "outcome = Inl (new_exn NotFoundInInbox fp None) \<and> (\<forall>f. MarkInProgress f \<notin> set evs)
         \<and> (\<forall>f t s h. SetInfo f t s h \<notin> set evs)"
    by (auto simp: work_def)
  then show "outcome = Inl (new_exn NotFoundInInbox fp None)"
    and "\<And>f. MarkInProgress f \<notin> set evs" and "\<And>f t s h. SetInfo f t s h \<notin> set evs"
    by simp_all
qed

lemma missing_file_lookup:
  "work_lookup empty_inbox_world (PDict scenario_request) =
     (Inr (''/a/b.c4gh'', PInt 42, PStr ''/inbox/alice/a/b.c4gh'',
           [(''filepath'', PStr ''/a/b.c4gh''), (''user'', PStr ''elixir:alice''),
            (''file_id'', PInt 42),
            (''org_msg'', PDict [(''filepath'', PStr ''/a/b.c4gh''),
                                 (''user'', PStr ''elixir:alice''), (''file_id'', PInt 42)])],
           [(''filepath'', PStr ''/a/b.c4gh''), (''user'', PStr ''elixir:alice''),
            (''file_id'', PInt 42)]),
      PDict [(''filepath'', PStr ''/a/b.c4gh''), (''user'', PStr ''elixir:alice''),
             (''file_id'', PInt 42),
             (''org_msg'', PDict [(''filepath'', PStr ''/a/b.c4gh''),
                                  (''user'', PStr ''elixir:alice''), (''file_id'', PInt 42)])],
      [InsertFile (PStr ''/a/b.c4gh'') (PStr ''alice'')])"
  by code_simp

text \<open>
  Scenario 1: \<^verbatim>\<open>set_info(42, ...)\<close> is the last event and \<^verbatim>\<open>mark_in_progress(42)\<close> is among
  those before it.  Scenario 2: \<open>NotFoundInInbox\<close>, after \<^verbatim>\<open>insert_file\<close> alone.
\<close>

theorem set_info_after_mark_in_progress_witness:
  "MarkInProgress (PInt 42) \<in> set (butlast (snd (snd scenario_run)))
   \<and> last (snd (snd scenario_run)) =
       SetInfo (PInt 42) (PStr ''/vault/42'') (PInt 876) (PStr ''63727970743467680100'')
   \<and> fst missing_file_run = Inl (new_exn NotFoundInInbox ''/a/b.c4gh'' None)
   \<and> snd (snd missing_file_run) = [InsertFile (PStr ''/a/b.c4gh'') (PStr ''alice'')]"
proof -
  note run1 = scenario_run_value [unfolded scenario_run_def scenario_job_def]
  note run2 = missing_file_run_value [unfolded missing_file_run_def missing_file_job_def]
  have split: "snd (snd scenario_run) = butlast (snd (snd scenario_run)) @
                 SetInfo (PInt 42) (PStr ''/vault/42'') (PInt 876) (PStr ''63727970743467680100'') # []"
    by (simp add: scenario_run_value)
  from set_info_after_mark_in_progress [OF run1] split
  have "MarkInProgress (PInt 42) \<in> set (butlast (snd (snd scenario_run)))"
    by (simp add: scenario_run_value)
  moreover have "\<not> path_exists empty_inbox_world (PStr ''/inbox/alice/a/b.c4gh'')"
    by (simp add: empty_inbox_world_def)
  with set_info_after_mark_in_progress [OF run2] missing_file_lookup
  have "fst missing_file_run = Inl (new_exn NotFoundInInbox ''/a/b.c4gh'' None)"
    by (simp add: missing_file_run_value)
  ultimately show ?thesis
    by (simp add: scenario_run_value missing_file_run_value)
qed




end
